theory Spec2Isabelle
  imports Complex_Main "HOL-Library.AList"
begin

section \<open>JavaScript values\<close>

text \<open>
  The client of \<^verbatim>\<open>index.js\<close> handles values it never inspects beyond a few
  property reads: JSON bodies parsed by the HTTP library, the arguments of the caller and
  the errors the HTTP library throws. They are modelled by one type of JavaScript values.
  An object is an association list from property names to values: a property is read with
  \<^const>\<open>map_of\<close>, written with \<^const>\<open>AList.update\<close> (the position of an existing key is
  kept, a new key goes last) and removed with \<^const>\<open>AList.delete\<close>. A number is a
  rational: every finite double is one, and the only things the code does with a number
  are a truthiness test and a comparison with 401. \<open>JDate v\<close> is the object that
  \<^verbatim>\<open>new Date(v)\<close> builds.
\<close>

datatype jsval =
    JUndefined
  | JNull
  | JBool bool
  | JNum rat
  | JStr string
  | JArr "jsval list"
  | JObj "(string \<times> jsval) list"
  | JDate jsval

text \<open>The conversion to a boolean that \<^verbatim>\<open>if (v)\<close>, \<^verbatim>\<open>!v\<close> and \<^verbatim>\<open>&&\<close> apply.\<close>

fun truthy :: "jsval \<Rightarrow> bool" where
  "truthy JUndefined = False"
| "truthy JNull = False"
| "truthy (JBool b) = b"
| "truthy (JNum n) = (n \<noteq> 0)"
| "truthy (JStr s) = (s \<noteq> [])"
| "truthy (JArr xs) = True"
| "truthy (JObj kvs) = True"
| "truthy (JDate v) = True"

section \<open>The enumerations and the error class\<close>

definition TagiasErrors_NONAME :: string where "TagiasErrors_NONAME = ''NONAME''"
definition TagiasErrors_NOPICTURES :: string where "TagiasErrors_NOPICTURES = ''NOPICTURES''"
definition TagiasErrors_BADPICTURES :: string where "TagiasErrors_BADPICTURES = ''BADPICTURES''"
definition TagiasErrors_NOLABELS :: string where "TagiasErrors_NOLABELS = ''NOLABELS''"
definition TagiasErrors_BADCALLBACK :: string where "TagiasErrors_BADCALLBACK = ''BADCALLBACK''"
definition TagiasErrors_BADBASEURL :: string where "TagiasErrors_BADBASEURL = ''BADBASEURL''"
definition TagiasErrors_BADTYPE :: string where "TagiasErrors_BADTYPE = ''BADTYPE''"
definition TagiasErrors_BADSTATUS :: string where "TagiasErrors_BADSTATUS = ''BADSTATUS''"
definition TagiasErrors_NOTFOUND :: string where "TagiasErrors_NOTFOUND = ''NOTFOUND''"
definition TagiasErrors_INTERNAL :: string where "TagiasErrors_INTERNAL = ''INTERNAL''"
definition TagiasErrors_NOAPIKEY :: string where "TagiasErrors_NOAPIKEY = ''NOAPIKEY''"
definition TagiasErrors_UNAUTHORIZED :: string where "TagiasErrors_UNAUTHORIZED = ''UNAUTHORIZED''"

lemmas TagiasErrors_defs =
  TagiasErrors_NONAME_def TagiasErrors_NOPICTURES_def TagiasErrors_BADPICTURES_def
  TagiasErrors_NOLABELS_def TagiasErrors_BADCALLBACK_def TagiasErrors_BADBASEURL_def
  TagiasErrors_BADTYPE_def TagiasErrors_BADSTATUS_def TagiasErrors_NOTFOUND_def
  TagiasErrors_INTERNAL_def TagiasErrors_NOAPIKEY_def TagiasErrors_UNAUTHORIZED_def

definition TAGIAS_URL :: string where
  "TAGIAS_URL = ''https://p.tagias.com/api/v2/tagias''"

text \<open>
  \<^verbatim>\<open>translateErrorCode\<close>: a \<^verbatim>\<open>switch\<close> compares with \<^verbatim>\<open>===\<close>, so only a string
  equal to one of the twelve codes leaves the default branch. The argument is any value:
  \<^verbatim>\<open>apiCall\<close> passes whatever the body holds under \<^verbatim>\<open>error\<close>.
\<close>

definition translateErrorCode :: "jsval \<Rightarrow> string" where
  "translateErrorCode code =
    (if code = JStr TagiasErrors_NONAME then ''The package name is missing''
     else if code = JStr TagiasErrors_NOPICTURES then ''The pictures array is empty or missing''
     else if code = JStr TagiasErrors_BADPICTURES then
       ''Some of the provided pictures could not be accessed or their URLs are malformed''
     else if code = JStr TagiasErrors_NOLABELS then
       ''The labels array for the classification task is missing (or there are less than 2 items in the array)''
     else if code = JStr TagiasErrors_BADCALLBACK then ''The callback URL is malformed''
     else if code = JStr TagiasErrors_BADBASEURL then ''The baseurl URL is malformed''
     else if code = JStr TagiasErrors_BADTYPE then ''The type value is not one of the allowed values''
     else if code = JStr TagiasErrors_BADSTATUS then
       ''The status value is not one of the allowed values or this kind of change is not allowed''
     else if code = JStr TagiasErrors_NOTFOUND then ''The specified object does not exist''
     else if code = JStr TagiasErrors_INTERNAL then ''An internal error has occurred''
     else if code = JStr TagiasErrors_NOAPIKEY then ''TAGIAS API Key is not provided''
     else if code = JStr TagiasErrors_UNAUTHORIZED then ''TAGIAS API Key is incorrect''
     else ''Unknown error code'')"

text \<open>An instance of the class \<^verbatim>\<open>TagiasError\<close>, and its constructor.\<close>

record TagiasError_object =
  message :: string
  code :: jsval
  name :: string

definition TagiasError :: "jsval \<Rightarrow> TagiasError_object" where
  "TagiasError c = \<lparr> message = translateErrorCode c, code = c, name = ''TagiasError'' \<rparr>"

text \<open>
  What an operation can throw: a \<^verbatim>\<open>TagiasError\<close>, the value the HTTP library threw
  (thrown again as it is), or the \<^verbatim>\<open>TypeError\<close> of the language for a property read
  on \<^verbatim>\<open>undefined\<close> or \<^verbatim>\<open>null\<close> and for a call of something that is not a function.
\<close>

datatype error =
    Thrown TagiasError_object
  | Rethrown jsval
  | TypeError

section \<open>Property access\<close>

text \<open>
  \<^verbatim>\<open>v.k\<close> for the property names the client reads (\<^verbatim>\<open>status\<close>, \<^verbatim>\<open>error\<close>,
  \<^verbatim>\<open>packages\<close>, \<^verbatim>\<open>package\<close>, \<^verbatim>\<open>operations\<close>, \<^verbatim>\<open>id\<close>, \<^verbatim>\<open>pictures_num\<close>, the
  date fields, \<^verbatim>\<open>isAxiosError\<close>, \<^verbatim>\<open>response\<close>): none of them is a property of a
  string, a number, a boolean, an array or a date, which therefore give \<^verbatim>\<open>undefined\<close>.
\<close>

fun get_prop :: "jsval \<Rightarrow> string \<Rightarrow> error + jsval" where
  "get_prop JUndefined k = Inl TypeError"
| "get_prop JNull k = Inl TypeError"
| "get_prop (JObj kvs) k = Inr (case map_of kvs k of None \<Rightarrow> JUndefined | Some v \<Rightarrow> v)"
| "get_prop v k = Inr JUndefined"

text \<open>\<^verbatim>\<open>delete v.k\<close>, evaluated for its effect on \<open>v\<close>.\<close>

fun delete_prop :: "jsval \<Rightarrow> string \<Rightarrow> error + jsval" where
  "delete_prop JUndefined k = Inl TypeError"
| "delete_prop JNull k = Inl TypeError"
| "delete_prop (JObj kvs) k = Inr (JObj (AList.delete k kvs))"
| "delete_prop v k = Inr v"

text \<open>
  The statement \<^verbatim>\<open>if (v.k) v.k = new Date(v.k);\<close> evaluated for its effect on \<open>v\<close>.
  Only an object can hold a truthy \<open>k\<close>, so the assignment is reached for objects only.
\<close>

fun date_field :: "string \<Rightarrow> jsval \<Rightarrow> error + jsval" where
  "date_field k JUndefined = Inl TypeError"
| "date_field k JNull = Inl TypeError"
| "date_field k (JObj kvs) =
     Inr (case map_of kvs k of
            None \<Rightarrow> JObj kvs
          | Some v \<Rightarrow> if truthy v then JObj (AList.update k (JDate v) kvs) else JObj kvs)"
| "date_field k v = Inr v"

text \<open>
  \<^verbatim>\<open>xs.map((item, index) => { if (item.k) xs[index].k = new Date(item.k); })\<close>:
  the callback runs on the elements in order and the first exception ends the call.
  \<open>xs[index]\<close> is \<open>item\<close> itself, so the effect on the array is elementwise.
\<close>

fun map_items :: "(jsval \<Rightarrow> error + jsval) \<Rightarrow> jsval list \<Rightarrow> error + jsval list" where
  "map_items f [] = Inr []"
| "map_items f (x # xs) =
     (case f x of
        Inl e \<Rightarrow> Inl e
      | Inr y \<Rightarrow> (case map_items f xs of Inl e \<Rightarrow> Inl e | Inr ys \<Rightarrow> Inr (y # ys)))"

text \<open>
  The receiver of \<^verbatim>\<open>.map\<close> must be an array: \<^verbatim>\<open>undefined.map\<close> and \<^verbatim>\<open>null.map\<close>
  fail on the read, and on any other value \<^verbatim>\<open>map\<close> is not a function.
\<close>

fun map_dates :: "string \<Rightarrow> jsval \<Rightarrow> error + jsval" where
  "map_dates k (JArr xs) =
     (case map_items (date_field k) xs of Inl e \<Rightarrow> Inl e | Inr ys \<Rightarrow> Inr (JArr ys))"
| "map_dates k v = Inl TypeError"

text \<open>
  The array under \<open>v.k\<close> is changed in place; \<open>with_prop v k a\<close> is \<open>v\<close> seen after
  the change. It is reached only where \<open>v\<close> is an object holding \<open>k\<close>.
\<close>

fun with_prop :: "jsval \<Rightarrow> string \<Rightarrow> jsval \<Rightarrow> jsval" where
  "with_prop (JObj kvs) k a = JObj (AList.update k a kvs)"
| "with_prop v k a = v"

section \<open>The HTTP library\<close>

text \<open>
  The client talks to the network through an instance of the HTTP library, built once by
  \<^verbatim>\<open>axios.create({headers: ...})\<close>. The instance is modelled by the headers it was
  configured with, and a call of \<^verbatim>\<open>instance.get\<close>, \<^verbatim>\<open>instance.post\<close> or
  \<^verbatim>\<open>instance.patch\<close> by the request it hands to the transport: verb, address, the
  headers of the instance, and the data argument when there is one. The transport stands
  for the library and the remote server together: it answers a request by a resolved
  promise (carrying the \<^verbatim>\<open>data\<close> of the response) or by a rejected one (carrying the
  thrown value). The network is the list of the requests issued so far.
\<close>

datatype verb = GET | POST | PATCH

record request =
  verb :: verb
  url :: string
  headers :: "(string \<times> string) list"
  body :: "jsval option"

datatype outcome = Resolved jsval | Rejected jsval

type_synonym transport = "request \<Rightarrow> outcome"

type_synonym network = "request list"

record AxiosInstance =
  defaults_headers :: "(string \<times> string) list"

definition axios_create :: "(string \<times> string) list \<Rightarrow> AxiosInstance" where
  "axios_create hs = \<lparr> defaults_headers = hs \<rparr>"

definition issue :: "transport \<Rightarrow> request \<Rightarrow> network \<Rightarrow> outcome \<times> network" where
  "issue t r net = (t r, net @ [r])"

definition instance_get :: "AxiosInstance \<Rightarrow> transport \<Rightarrow> string \<Rightarrow> network \<Rightarrow> outcome \<times> network" where
  "instance_get i t u net =
     issue t \<lparr> verb = GET, url = u, headers = defaults_headers i, body = None \<rparr> net"

definition instance_post :: "AxiosInstance \<Rightarrow> transport \<Rightarrow> string \<Rightarrow> jsval option \<Rightarrow> network \<Rightarrow> outcome \<times> network" where
  "instance_post i t u d net =
     issue t \<lparr> verb = POST, url = u, headers = defaults_headers i, body = d \<rparr> net"

definition instance_patch :: "AxiosInstance \<Rightarrow> transport \<Rightarrow> string \<Rightarrow> jsval option \<Rightarrow> network \<Rightarrow> outcome \<times> network" where
  "instance_patch i t u d net =
     issue t \<lparr> verb = PATCH, url = u, headers = defaults_headers i, body = d \<rparr> net"

text \<open>A transport that gives the same answer to every request.\<close>

definition reply :: "outcome \<Rightarrow> transport" where
  "reply out r = out"

section \<open>apiCall\<close>

text \<open>
  The condition of the \<^verbatim>\<open>catch\<close> block,
  \<^verbatim>\<open>e.isAxiosError === true && e.response && e.response.status === 401\<close>, evaluated from
  left to right. A truthy \<^verbatim>\<open>e.response\<close> is neither \<^verbatim>\<open>undefined\<close> nor \<^verbatim>\<open>null\<close>, so
  only the first read can fail.
\<close>

definition is_unauthorized :: "jsval \<Rightarrow> error + bool" where
  "is_unauthorized e =
    (case get_prop e ''isAxiosError'' of
       Inl x \<Rightarrow> Inl x
     | Inr ax \<Rightarrow>
         if ax \<noteq> JBool True then Inr False
         else (case get_prop e ''response'' of
                 Inl x \<Rightarrow> Inl x
               | Inr resp \<Rightarrow>
                   if \<not> truthy resp then Inr False
                   else (case get_prop resp ''status'' of
                           Inl x \<Rightarrow> Inl x
                         | Inr st \<Rightarrow> Inr (st = JNum 401))))"

text \<open>What \<^verbatim>\<open>apiCall\<close> does with the settled promise of \<^verbatim>\<open>func()\<close>.\<close>

definition unwrap :: "outcome \<Rightarrow> error + jsval" where
  "unwrap out =
    (case out of
       Rejected e \<Rightarrow>
         (case is_unauthorized e of
            Inl x \<Rightarrow> Inl x
          | Inr True \<Rightarrow> Inl (Thrown (TagiasError (JStr TagiasErrors_UNAUTHORIZED)))
          | Inr False \<Rightarrow> Inl (Rethrown e))
     | Resolved d \<Rightarrow>
         (case get_prop d ''status'' of
            Inl x \<Rightarrow> Inl x
          | Inr st \<Rightarrow>
              if st \<noteq> JStr ''ok'' then
                (case get_prop d ''error'' of
                   Inl x \<Rightarrow> Inl x
                 | Inr c \<Rightarrow> Inl (Thrown (TagiasError c)))
              else Inr d))"

definition apiCall :: "(network \<Rightarrow> outcome \<times> network) \<Rightarrow> network \<Rightarrow> (error + jsval) \<times> network" where
  "apiCall func net = (case func net of (out, net') \<Rightarrow> (unwrap out, net'))"

section \<open>The client\<close>

text \<open>
  The class \<^verbatim>\<open>Tagias\<close>. The API key is a string as documented; \<open>None\<close> is the
  argument left out (\<^verbatim>\<open>undefined\<close>). \<^verbatim>\<open>!apiKey\<close> holds of \<^verbatim>\<open>undefined\<close> and of the
  empty string. The constructor is given the network only to say what it does to it.
\<close>

record Tagias_object =
  apiKey :: string
  axios_instance :: AxiosInstance

definition Tagias_constructor :: "string option \<Rightarrow> network \<Rightarrow> (error + Tagias_object) \<times> network" where
  "Tagias_constructor key net =
    (if \<not> truthy (case key of None \<Rightarrow> JUndefined | Some k \<Rightarrow> JStr k)
     then (Inl (Thrown (TagiasError (JStr TagiasErrors_NOAPIKEY))), net)
     else (Inr \<lparr> apiKey = the key,
                 axios_instance = axios_create
                   [(''Content-Type'', ''application/json''),
                    (''Authorization'', ''Api-Key '' @ the key)] \<rparr>, net))"

text \<open>
  The operations. Package identifiers are strings, as documented, and are spliced into
  the address by the template literal. Every other argument goes into the request data as
  it is, so it is any value. An operation that resolves to nothing returns
  \<^verbatim>\<open>undefined\<close>.
\<close>

definition getPackages :: "Tagias_object \<Rightarrow> transport \<Rightarrow> network \<Rightarrow> (error + jsval) \<times> network" where
  "getPackages this t net =
    (case apiCall (instance_get (axios_instance this) t (TAGIAS_URL @ ''/packages'')) net of
       (Inl e, net') \<Rightarrow> (Inl e, net')
     | (Inr result, net') \<Rightarrow>
         (case get_prop result ''packages'' of
            Inl e \<Rightarrow> (Inl e, net')
          | Inr ps \<Rightarrow> (map_dates ''created'' ps, net')))"

definition createPackage ::
  "Tagias_object \<Rightarrow> transport \<Rightarrow> jsval \<Rightarrow> jsval \<Rightarrow> jsval \<Rightarrow> jsval \<Rightarrow> jsval \<Rightarrow> jsval \<Rightarrow> jsval \<Rightarrow> jsval
     \<Rightarrow> network \<Rightarrow> (error + jsval) \<times> network" where
  "createPackage this t name' type' descr labels callback baseurl pictures labels_required net =
    (let data = JObj
           [(''name'', name'),
            (''type'', type'),
            (''descr'', descr),
            (''labels'', labels),
            (''callback'', callback),
            (''baseurl'', baseurl),
            (''pictures'', pictures),
            (''labels_required'', if labels_required = JUndefined then JNull else labels_required)]
     in case apiCall (instance_post (axios_instance this) t (TAGIAS_URL @ ''/packages'') (Some data)) net of
          (Inl e, net') \<Rightarrow> (Inl e, net')
        | (Inr result, net') \<Rightarrow>
            (case get_prop result ''id'' of
               Inl e \<Rightarrow> (Inl e, net')
             | Inr i \<Rightarrow>
                 (case get_prop result ''pictures_num'' of
                    Inl e \<Rightarrow> (Inl e, net')
                  | Inr n \<Rightarrow> (Inr (JObj [(''id'', i), (''pictures_num'', n)]), net'))))"

definition setPackageStatus :: "Tagias_object \<Rightarrow> transport \<Rightarrow> string \<Rightarrow> jsval \<Rightarrow> network \<Rightarrow> (error + jsval) \<times> network" where
  "setPackageStatus this t id' status net =
    (let data = JObj [(''status'', status)]
     in case apiCall (instance_patch (axios_instance this) t (TAGIAS_URL @ ''/packages/'' @ id') (Some data)) net of
          (Inl e, net') \<Rightarrow> (Inl e, net')
        | (Inr result, net') \<Rightarrow> (Inr JUndefined, net'))"

definition getPackage :: "Tagias_object \<Rightarrow> transport \<Rightarrow> string \<Rightarrow> network \<Rightarrow> (error + jsval) \<times> network" where
  "getPackage this t id' net =
    (case apiCall (instance_get (axios_instance this) t (TAGIAS_URL @ ''/packages/'' @ id')) net of
       (Inl e, net') \<Rightarrow> (Inl e, net')
     | (Inr result, net') \<Rightarrow>
         (case get_prop result ''package'' of
            Inl e \<Rightarrow> (Inl e, net')
          | Inr p0 \<Rightarrow>
         (case date_field ''created'' p0 of
            Inl e \<Rightarrow> (Inl e, net')
          | Inr p1 \<Rightarrow>
         (case date_field ''started'' p1 of
            Inl e \<Rightarrow> (Inl e, net')
          | Inr p2 \<Rightarrow>
         (case date_field ''stopped'' p2 of
            Inl e \<Rightarrow> (Inl e, net')
          | Inr p3 \<Rightarrow>
         (case date_field ''finished'' p3 of
            Inl e \<Rightarrow> (Inl e, net')
          | Inr p4 \<Rightarrow>
         (case date_field ''updated'' p4 of
            Inl e \<Rightarrow> (Inl e, net')
          | Inr p5 \<Rightarrow> (date_field ''delivered'' p5, net'))))))))"

definition requestResult :: "Tagias_object \<Rightarrow> transport \<Rightarrow> string \<Rightarrow> network \<Rightarrow> (error + jsval) \<times> network" where
  "requestResult this t id' net =
    (case apiCall (instance_post (axios_instance this) t (TAGIAS_URL @ ''/packages/result/'' @ id') None) net of
       (Inl e, net') \<Rightarrow> (Inl e, net')
     | (Inr result, net') \<Rightarrow> (Inr JUndefined, net'))"

definition getResult :: "Tagias_object \<Rightarrow> transport \<Rightarrow> string \<Rightarrow> network \<Rightarrow> (error + jsval) \<times> network" where
  "getResult this t id' net =
    (case apiCall (instance_get (axios_instance this) t (TAGIAS_URL @ ''/packages/result/'' @ id')) net of
       (Inl e, net') \<Rightarrow> (Inl e, net')
     | (Inr result, net') \<Rightarrow>
         (case date_field ''finished'' result of
            Inl e \<Rightarrow> (Inl e, net')
          | Inr result' \<Rightarrow> (delete_prop result' ''status'', net')))"

definition getBalance :: "Tagias_object \<Rightarrow> transport \<Rightarrow> network \<Rightarrow> (error + jsval) \<times> network" where
  "getBalance this t net =
    (case apiCall (instance_get (axios_instance this) t (TAGIAS_URL @ ''/balance'')) net of
       (Inl e, net') \<Rightarrow> (Inl e, net')
     | (Inr result, net') \<Rightarrow>
         (case get_prop result ''operations'' of
            Inl e \<Rightarrow> (Inl e, net')
          | Inr ops \<Rightarrow>
              (case map_dates ''date'' ops of
                 Inl e \<Rightarrow> (Inl e, net')
               | Inr ops' \<Rightarrow> (delete_prop (with_prop result ''operations'' ops') ''status'', net'))))"

text \<open>
  The client of the usage example of the README, built with the key of the read-only test
  environment; the concrete instances below use it.
\<close>

definition test_client :: Tagias_object where
  "test_client =
     \<lparr> apiKey = ''test'',
       axios_instance = axios_create
         [(''Content-Type'', ''application/json''), (''Authorization'', ''Api-Key test'')] \<rparr>"

text \<open>
  How the properties of an object \<open>r\<close> relate to those of \<open>p\<close> after the statement
  \<^verbatim>\<open>if (p.k) p.k = new Date(p.k);\<close>: under \<open>k\<close> a truthy value has become a date, and
  nothing else has changed (a missing \<open>k\<close> is still missing).
\<close>

abbreviation dated :: "string \<Rightarrow> (string \<times> jsval) list \<Rightarrow> (string \<times> jsval) list \<Rightarrow> bool" where
  "dated k p r \<equiv>
     (\<forall>f. map_of r f =
        (if f = k then map_option (\<lambda>v. if truthy v then JDate v else v) (map_of p f)
         else map_of p f))"

section \<open>The translation table\<close>

text \<open>
  C9: for each of the twelve enumerated codes, the error built from the code carries
  that code and the message the table gives for it. The translation is a function of the
  code alone, defined on every value.
\<close>

theorem TagiasError_table:
  "(TagiasError (JStr TagiasErrors_NONAME) =
     \<lparr> message = ''The package name is missing'', code = JStr ''NONAME'', name = ''TagiasError'' \<rparr>) \<and>
   (TagiasError (JStr TagiasErrors_NOPICTURES) =
     \<lparr> message = ''The pictures array is empty or missing'', code = JStr ''NOPICTURES'',
       name = ''TagiasError'' \<rparr>) \<and>
   (TagiasError (JStr TagiasErrors_BADPICTURES) =
     \<lparr> message = ''Some of the provided pictures could not be accessed or their URLs are malformed'',
       code = JStr ''BADPICTURES'', name = ''TagiasError'' \<rparr>) \<and>
   (TagiasError (JStr TagiasErrors_NOLABELS) =
     \<lparr> message = ''The labels array for the classification task is missing (or there are less than 2 items in the array)'',
       code = JStr ''NOLABELS'', name = ''TagiasError'' \<rparr>) \<and>
   (TagiasError (JStr TagiasErrors_BADCALLBACK) =
     \<lparr> message = ''The callback URL is malformed'', code = JStr ''BADCALLBACK'', name = ''TagiasError'' \<rparr>) \<and>
   (TagiasError (JStr TagiasErrors_BADBASEURL) =
     \<lparr> message = ''The baseurl URL is malformed'', code = JStr ''BADBASEURL'', name = ''TagiasError'' \<rparr>) \<and>
   (TagiasError (JStr TagiasErrors_BADTYPE) =
     \<lparr> message = ''The type value is not one of the allowed values'', code = JStr ''BADTYPE'',
       name = ''TagiasError'' \<rparr>) \<and>
   (TagiasError (JStr TagiasErrors_BADSTATUS) =
     \<lparr> message = ''The status value is not one of the allowed values or this kind of change is not allowed'',
       code = JStr ''BADSTATUS'', name = ''TagiasError'' \<rparr>) \<and>
   (TagiasError (JStr TagiasErrors_NOTFOUND) =
     \<lparr> message = ''The specified object does not exist'', code = JStr ''NOTFOUND'', name = ''TagiasError'' \<rparr>) \<and>
   (TagiasError (JStr TagiasErrors_INTERNAL) =
     \<lparr> message = ''An internal error has occurred'', code = JStr ''INTERNAL'', name = ''TagiasError'' \<rparr>) \<and>
   (TagiasError (JStr TagiasErrors_NOAPIKEY) =
     \<lparr> message = ''TAGIAS API Key is not provided'', code = JStr ''NOAPIKEY'', name = ''TagiasError'' \<rparr>) \<and>
   (TagiasError (JStr TagiasErrors_UNAUTHORIZED) =
     \<lparr> message = ''TAGIAS API Key is incorrect'', code = JStr ''UNAUTHORIZED'', name = ''TagiasError'' \<rparr>)"
  by (simp add: TagiasError_def translateErrorCode_def TagiasErrors_defs)

section \<open>The envelope\<close>

text \<open>
  Every operation hands one request to the instance inside \<^verbatim>\<open>apiCall\<close>, which logs the
  request and unwraps the answer of the transport.
\<close>

lemma apiCall_get:
  "apiCall (instance_get i t u) net =
     (unwrap (t \<lparr> verb = GET, url = u, headers = defaults_headers i, body = None \<rparr>),
      net @ [\<lparr> verb = GET, url = u, headers = defaults_headers i, body = None \<rparr>])"
  by (simp add: apiCall_def instance_get_def issue_def)

lemma apiCall_post:
  "apiCall (instance_post i t u d) net =
     (unwrap (t \<lparr> verb = POST, url = u, headers = defaults_headers i, body = d \<rparr>),
      net @ [\<lparr> verb = POST, url = u, headers = defaults_headers i, body = d \<rparr>])"
  by (simp add: apiCall_def instance_post_def issue_def)

lemma apiCall_patch:
  "apiCall (instance_patch i t u d) net =
     (unwrap (t \<lparr> verb = PATCH, url = u, headers = defaults_headers i, body = d \<rparr>),
      net @ [\<lparr> verb = PATCH, url = u, headers = defaults_headers i, body = d \<rparr>])"
  by (simp add: apiCall_def instance_patch_def issue_def)

lemmas apiCall_simps = apiCall_get apiCall_post apiCall_patch

lemmas operation_defs =
  getPackages_def createPackage_def setPackageStatus_def getPackage_def
  requestResult_def getResult_def getBalance_def

lemma unwrap_not_ok:
  assumes "get_prop d ''status'' = Inr st" and "st \<noteq> JStr ''ok''"
    and "get_prop d ''error'' = Inr c"
  shows "unwrap (Resolved d) = Inl (Thrown (TagiasError c))"
  using assms by (simp add: unwrap_def)



section \<open>Errors of the transport\<close>

lemma is_unauthorized_401:
  assumes "map_of kvs ''isAxiosError'' = Some (JBool True)"
    and "map_of kvs ''response'' = Some (JObj r)"
    and "map_of r ''status'' = Some (JNum 401)"
  shows "is_unauthorized (JObj kvs) = Inr True"
  using assms by (simp add: is_unauthorized_def)

lemma unwrap_401:
  assumes "map_of kvs ''isAxiosError'' = Some (JBool True)"
    and "map_of kvs ''response'' = Some (JObj r)"
    and "map_of r ''status'' = Some (JNum 401)"
  shows "unwrap (Rejected (JObj kvs)) = Inl (Thrown (TagiasError (JStr TagiasErrors_UNAUTHORIZED)))"
  by (simp add: unwrap_def is_unauthorized_401 [OF assms])

text \<open>
  C2: for each operation, when the transport rejects with an error of the HTTP library
  whose response has status 401, the operation throws the \<^verbatim>\<open>TagiasError\<close> with code
  \<^verbatim>\<open>UNAUTHORIZED\<close>, whatever else the error and its response hold (the body of the
  response is one more property of \<open>r\<close>).
\<close>

theorem unauthorized_on_401:
  assumes "map_of kvs ''isAxiosError'' = Some (JBool True)"
    and "map_of kvs ''response'' = Some (JObj r)"
    and "map_of r ''status'' = Some (JNum 401)"
    and "e = Thrown (TagiasError (JStr TagiasErrors_UNAUTHORIZED))"
  shows "fst (getPackages this (reply (Rejected (JObj kvs))) net) = Inl e \<and>
         fst (createPackage this (reply (Rejected (JObj kvs))) a1 a2 a3 a4 a5 a6 a7 a8 net) = Inl e \<and>
         fst (setPackageStatus this (reply (Rejected (JObj kvs))) i s net) = Inl e \<and>
         fst (getPackage this (reply (Rejected (JObj kvs))) i net) = Inl e \<and>
         fst (requestResult this (reply (Rejected (JObj kvs))) i net) = Inl e \<and>
         fst (getResult this (reply (Rejected (JObj kvs))) i net) = Inl e \<and>
         fst (getBalance this (reply (Rejected (JObj kvs))) net) = Inl e \<and>
         e = Thrown \<lparr> message = ''TAGIAS API Key is incorrect'', code = JStr ''UNAUTHORIZED'',
                      name = ''TagiasError'' \<rparr>"
proof -
  have "unwrap (Rejected (JObj kvs)) = Inl e"
    using unwrap_401 [OF assms(1-3)] assms(4) by simp
  moreover have "e = Thrown \<lparr> message = ''TAGIAS API Key is incorrect'',
      code = JStr ''UNAUTHORIZED'', name = ''TagiasError'' \<rparr>"
    using assms(4)
    by (simp add: TagiasError_def translateErrorCode_def TagiasErrors_defs)
  ultimately show ?thesis
    by (simp add: operation_defs apiCall_simps reply_def)
qed

theorem unauthorized_on_401_witness:
  "map_of [(''isAxiosError'', JBool True),
           (''response'', JObj [(''status'', JNum 401),
                                (''data'', JObj [(''status'', JStr ''ok'')])])] ''isAxiosError''
     = Some (JBool True) \<and>
   fst (getPackages test_client
         (reply (Rejected (JObj [(''isAxiosError'', JBool True),
            (''response'', JObj [(''status'', JNum 401),
                                 (''data'', JObj [(''status'', JStr ''ok'')])])])))
         []) = Inl (Thrown (TagiasError (JStr TagiasErrors_UNAUTHORIZED))) \<and>
   fst (getResult test_client
         (reply (Rejected (JObj [(''isAxiosError'', JBool True),
            (''response'', JObj [(''status'', JNum 401),
                                 (''data'', JObj [(''status'', JStr ''ok'')])])])))
         ''p1'' []) = Inl (Thrown (TagiasError (JStr TagiasErrors_UNAUTHORIZED)))"
  using unauthorized_on_401
    [where kvs = "[(''isAxiosError'', JBool True),
            (''response'', JObj [(''status'', JNum 401),
                                 (''data'', JObj [(''status'', JStr ''ok'')])])]"
       and r = "[(''status'', JNum 401), (''data'', JObj [(''status'', JStr ''ok'')])]"
       and e = "Thrown (TagiasError (JStr TagiasErrors_UNAUTHORIZED))"
       and this = test_client and net = "[]" and i = "''p1''" and s = JNull
       and ?a1.0 = JNull and ?a2.0 = JNull and ?a3.0 = JNull and ?a4.0 = JNull and ?a5.0 = JNull and ?a6.0 = JNull and ?a7.0 = JNull and ?a8.0 = JNull]
  by simp





section \<open>Construction\<close>

text \<open>
  C3: constructing the client without an API key (the argument left out; the empty
  string is treated alike) throws the \<^verbatim>\<open>TagiasError\<close> with code \<^verbatim>\<open>NOAPIKEY\<close> and
  leaves the network as it was: no request has been issued.
\<close>

theorem constructor_without_key:
  "Tagias_constructor None net =
     (Inl (Thrown \<lparr> message = ''TAGIAS API Key is not provided'', code = JStr ''NOAPIKEY'',
                    name = ''TagiasError'' \<rparr>), net) \<and>
   Tagias_constructor (Some []) net =
     (Inl (Thrown \<lparr> message = ''TAGIAS API Key is not provided'', code = JStr ''NOAPIKEY'',
                    name = ''TagiasError'' \<rparr>), net)"
  by (simp add: Tagias_constructor_def TagiasError_def translateErrorCode_def TagiasErrors_defs)

section \<open>Codes outside the table\<close>

lemma translateErrorCode_unknown:
  assumes "c \<notin> {JStr TagiasErrors_NONAME, JStr TagiasErrors_NOPICTURES,
       JStr TagiasErrors_BADPICTURES, JStr TagiasErrors_NOLABELS, JStr TagiasErrors_BADCALLBACK,
       JStr TagiasErrors_BADBASEURL, JStr TagiasErrors_BADTYPE, JStr TagiasErrors_BADSTATUS,
       JStr TagiasErrors_NOTFOUND, JStr TagiasErrors_INTERNAL, JStr TagiasErrors_NOAPIKEY,
       JStr TagiasErrors_UNAUTHORIZED}"
  shows "translateErrorCode c = ''Unknown error code''"
  using assms by (simp add: translateErrorCode_def)

text \<open>
  C10: for each operation, when the body is an object whose \<^verbatim>\<open>status\<close> is not the
  string \<^verbatim>\<open>ok\<close> and what it holds under \<^verbatim>\<open>error\<close> is none of the twelve codes
  (\<^verbatim>\<open>undefined\<close> when the property is missing), the operation throws a
  \<^verbatim>\<open>TagiasError\<close> that carries that value unchanged as its code and the message
  \<^verbatim>\<open>Unknown error code\<close>.
\<close>

theorem unknown_code_preserved:
  assumes "map_of env ''status'' \<noteq> Some (JStr ''ok'')"
    and "c = (case map_of env ''error'' of None \<Rightarrow> JUndefined | Some v \<Rightarrow> v)"
    and "c \<notin> {JStr TagiasErrors_NONAME, JStr TagiasErrors_NOPICTURES,
       JStr TagiasErrors_BADPICTURES, JStr TagiasErrors_NOLABELS, JStr TagiasErrors_BADCALLBACK,
       JStr TagiasErrors_BADBASEURL, JStr TagiasErrors_BADTYPE, JStr TagiasErrors_BADSTATUS,
       JStr TagiasErrors_NOTFOUND, JStr TagiasErrors_INTERNAL, JStr TagiasErrors_NOAPIKEY,
       JStr TagiasErrors_UNAUTHORIZED}"
    and "e = Thrown \<lparr> message = ''Unknown error code'', code = c, name = ''TagiasError'' \<rparr>"
  shows "fst (getPackages this (reply (Resolved (JObj env))) net) = Inl e \<and>
         fst (createPackage this (reply (Resolved (JObj env))) a1 a2 a3 a4 a5 a6 a7 a8 net) = Inl e \<and>
         fst (setPackageStatus this (reply (Resolved (JObj env))) i s net) = Inl e \<and>
         fst (getPackage this (reply (Resolved (JObj env))) i net) = Inl e \<and>
         fst (requestResult this (reply (Resolved (JObj env))) i net) = Inl e \<and>
         fst (getResult this (reply (Resolved (JObj env))) i net) = Inl e \<and>
         fst (getBalance this (reply (Resolved (JObj env))) net) = Inl e"
proof -
  define st where "st = (case map_of env ''status'' of None \<Rightarrow> JUndefined | Some v \<Rightarrow> v)"
  have rd: "get_prop (JObj env) ''status'' = Inr st"
    by (simp add: st_def)
  have ne: "st \<noteq> JStr ''ok''"
    using assms(1) by (auto simp: st_def split: option.splits)
  have cd: "get_prop (JObj env) ''error'' = Inr c"
    by (simp add: assms(2))
  have "TagiasError c = \<lparr> message = ''Unknown error code'', code = c, name = ''TagiasError'' \<rparr>"
    by (simp add: TagiasError_def translateErrorCode_unknown [OF assms(3)])
  with unwrap_not_ok [OF rd ne cd] assms(4) have "unwrap (Resolved (JObj env)) = Inl e"
    by simp
  then show ?thesis
    by (simp add: operation_defs apiCall_simps reply_def)
qed

theorem unknown_code_preserved_witness:
  "map_of [(''status'', JStr ''error''), (''error'', JStr ''FOO'')] ''status'' \<noteq> Some (JStr ''ok'') \<and>
   map_of [(''status'', JStr ''error''), (''error'', JStr ''FOO'')] ''error'' = Some (JStr ''FOO'') \<and>
   fst (getPackages test_client
          (reply (Resolved (JObj [(''status'', JStr ''error''), (''error'', JStr ''FOO'')]))) [])
     = Inl (Thrown \<lparr> message = ''Unknown error code'', code = JStr ''FOO'', name = ''TagiasError'' \<rparr>) \<and>
   fst (getBalance test_client
          (reply (Resolved (JObj [(''status'', JStr ''error''), (''error'', JStr ''FOO'')]))) [])
     = Inl (Thrown \<lparr> message = ''Unknown error code'', code = JStr ''FOO'', name = ''TagiasError'' \<rparr>) \<and>
   map_of [(''status'', JStr ''error'')] ''error'' = None \<and>
   fst (setPackageStatus test_client (reply (Resolved (JObj [(''status'', JStr ''error'')])))
          ''p1'' (JStr ''STOPPED'') [])
     = Inl (Thrown \<lparr> message = ''Unknown error code'', code = JUndefined, name = ''TagiasError'' \<rparr>)"
  using unknown_code_preserved
    [where env = "[(''status'', JStr ''error''), (''error'', JStr ''FOO'')]"
       and c = "JStr ''FOO''"
       and e = "Thrown \<lparr> message = ''Unknown error code'', code = JStr ''FOO'', name = ''TagiasError'' \<rparr>"
       and this = test_client and net = "[]" and i = "''p1''" and s = "JStr ''STOPPED''"
       and ?a1.0 = JNull and ?a2.0 = JNull and ?a3.0 = JNull and ?a4.0 = JNull and ?a5.0 = JNull and ?a6.0 = JNull and ?a7.0 = JNull and ?a8.0 = JNull]
    unknown_code_preserved
    [where env = "[(''status'', JStr ''error'')]"
       and c = JUndefined
       and e = "Thrown \<lparr> message = ''Unknown error code'', code = JUndefined, name = ''TagiasError'' \<rparr>"
       and this = test_client and net = "[]" and i = "''p1''" and s = "JStr ''STOPPED''"
       and ?a1.0 = JNull and ?a2.0 = JNull and ?a3.0 = JNull and ?a4.0 = JNull and ?a5.0 = JNull and ?a6.0 = JNull and ?a7.0 = JNull and ?a8.0 = JNull]
  by (simp add: TagiasErrors_defs)

section \<open>Requests\<close>

text \<open>
  C8: a client built from a key \<open>k\<close> issues, in each operation, exactly one request (the
  network grows by one entry, whatever the transport answers): the verb and the address
  are those of the operation under the fixed base address, and the headers are the two
  set at construction, \<^verbatim>\<open>Content-Type: application/json\<close> and
  \<^verbatim>\<open>Authorization: Api-Key k\<close>.
\<close>

theorem one_request_per_operation:
  assumes "k \<noteq> []"
    and "hs = [(''Content-Type'', ''application/json''), (''Authorization'', ''Api-Key '' @ k)]"
  shows "\<exists>this. Tagias_constructor (Some k) net0 = (Inr this, net0) \<and>
     snd (getPackages this t net) =
       net @ [\<lparr> verb = GET, url = ''https://p.tagias.com/api/v2/tagias/packages'',
                headers = hs, body = None \<rparr>] \<and>
     snd (createPackage this t a1 a2 a3 a4 a5 a6 a7 a8 net) =
       net @ [\<lparr> verb = POST, url = ''https://p.tagias.com/api/v2/tagias/packages'',
                headers = hs,
                body = Some (JObj [(''name'', a1), (''type'', a2), (''descr'', a3), (''labels'', a4),
                  (''callback'', a5), (''baseurl'', a6), (''pictures'', a7),
                  (''labels_required'', if a8 = JUndefined then JNull else a8)]) \<rparr>] \<and>
     snd (setPackageStatus this t i s net) =
       net @ [\<lparr> verb = PATCH, url = ''https://p.tagias.com/api/v2/tagias/packages/'' @ i,
                headers = hs, body = Some (JObj [(''status'', s)]) \<rparr>] \<and>
     snd (getPackage this t i net) =
       net @ [\<lparr> verb = GET, url = ''https://p.tagias.com/api/v2/tagias/packages/'' @ i,
                headers = hs, body = None \<rparr>] \<and>
     snd (requestResult this t i net) =
       net @ [\<lparr> verb = POST, url = ''https://p.tagias.com/api/v2/tagias/packages/result/'' @ i,
                headers = hs, body = None \<rparr>] \<and>
     snd (getResult this t i net) =
       net @ [\<lparr> verb = GET, url = ''https://p.tagias.com/api/v2/tagias/packages/result/'' @ i,
                headers = hs, body = None \<rparr>] \<and>
     snd (getBalance this t net) =
       net @ [\<lparr> verb = GET, url = ''https://p.tagias.com/api/v2/tagias/balance'',
                headers = hs, body = None \<rparr>]"
proof -
  define this where "this = \<lparr> apiKey = k, axios_instance = axios_create hs \<rparr>"
  have c: "Tagias_constructor (Some k) net0 = (Inr this, net0)"
    using assms by (simp add: Tagias_constructor_def this_def)
  have h: "defaults_headers (axios_instance this) = hs"
    by (simp add: this_def axios_create_def)
  have 1: "snd (getPackages this t net) =
       net @ [\<lparr> verb = GET, url = ''https://p.tagias.com/api/v2/tagias/packages'',
                headers = hs, body = None \<rparr>]"
    by (simp add: getPackages_def apiCall_get h TAGIAS_URL_def split: sum.split prod.split)
  have 2: "snd (createPackage this t a1 a2 a3 a4 a5 a6 a7 a8 net) =
       net @ [\<lparr> verb = POST, url = ''https://p.tagias.com/api/v2/tagias/packages'',
                headers = hs,
                body = Some (JObj [(''name'', a1), (''type'', a2), (''descr'', a3), (''labels'', a4),
                  (''callback'', a5), (''baseurl'', a6), (''pictures'', a7),
                  (''labels_required'', if a8 = JUndefined then JNull else a8)]) \<rparr>]"
    by (simp add: createPackage_def Let_def apiCall_post h TAGIAS_URL_def
        split: sum.split prod.split)
  have 3: "snd (setPackageStatus this t i s net) =
       net @ [\<lparr> verb = PATCH, url = ''https://p.tagias.com/api/v2/tagias/packages/'' @ i,
                headers = hs, body = Some (JObj [(''status'', s)]) \<rparr>]"
    by (simp add: setPackageStatus_def Let_def apiCall_patch h TAGIAS_URL_def
        split: sum.split prod.split)
  have 4: "snd (getPackage this t i net) =
       net @ [\<lparr> verb = GET, url = ''https://p.tagias.com/api/v2/tagias/packages/'' @ i,
                headers = hs, body = None \<rparr>]"
    by (simp add: getPackage_def apiCall_get h TAGIAS_URL_def split: sum.split prod.split)
  have 5: "snd (requestResult this t i net) =
       net @ [\<lparr> verb = POST, url = ''https://p.tagias.com/api/v2/tagias/packages/result/'' @ i,
                headers = hs, body = None \<rparr>]"
    by (simp add: requestResult_def apiCall_post h TAGIAS_URL_def split: sum.split prod.split)
  have 6: "snd (getResult this t i net) =
       net @ [\<lparr> verb = GET, url = ''https://p.tagias.com/api/v2/tagias/packages/result/'' @ i,
                headers = hs, body = None \<rparr>]"
    by (simp add: getResult_def apiCall_get h TAGIAS_URL_def split: sum.split prod.split)
  have 7: "snd (getBalance this t net) =
       net @ [\<lparr> verb = GET, url = ''https://p.tagias.com/api/v2/tagias/balance'',
                headers = hs, body = None \<rparr>]"
    by (simp add: getBalance_def apiCall_get h TAGIAS_URL_def split: sum.split prod.split)
  from c 1 2 3 4 5 6 7 show ?thesis by blast
qed

theorem one_request_per_operation_witness:
  "''test'' \<noteq> [] \<and>
   (\<exists>this. Tagias_constructor (Some ''test'') [] = (Inr this, []) \<and>
     snd (getPackages this (reply (Resolved JNull)) []) =
       [\<lparr> verb = GET, url = ''https://p.tagias.com/api/v2/tagias/packages'',
          headers = [(''Content-Type'', ''application/json''), (''Authorization'', ''Api-Key test'')],
          body = None \<rparr>] \<and>
     snd (setPackageStatus this (reply (Resolved JNull)) ''p1'' (JStr ''STOPPED'') []) =
       [\<lparr> verb = PATCH, url = ''https://p.tagias.com/api/v2/tagias/packages/p1'',
          headers = [(''Content-Type'', ''application/json''), (''Authorization'', ''Api-Key test'')],
          body = Some (JObj [(''status'', JStr ''STOPPED'')]) \<rparr>])"
proof -
  have k: "''test'' \<noteq> []" by simp
  from one_request_per_operation [OF k refl, of "[]" "reply (Resolved JNull)" "[]"
      JNull JNull JNull JNull JNull JNull JNull JNull "''p1''" "JStr ''STOPPED''"]
  obtain this where
    "Tagias_constructor (Some ''test'') [] = (Inr this, [])"
    "snd (getPackages this (reply (Resolved JNull)) []) =
       [\<lparr> verb = GET, url = ''https://p.tagias.com/api/v2/tagias/packages'',
          headers = [(''Content-Type'', ''application/json''), (''Authorization'', ''Api-Key test'')],
          body = None \<rparr>]"
    "snd (setPackageStatus this (reply (Resolved JNull)) ''p1'' (JStr ''STOPPED'') []) =
       [\<lparr> verb = PATCH, url = ''https://p.tagias.com/api/v2/tagias/packages/p1'',
          headers = [(''Content-Type'', ''application/json''), (''Authorization'', ''Api-Key test'')],
          body = Some (JObj [(''status'', JStr ''STOPPED'')]) \<rparr>]"
    by auto
  with k show ?thesis by blast
qed

section \<open>Successful answers\<close>

lemma unwrap_ok:
  assumes "map_of env ''status'' = Some (JStr ''ok'')"
  shows "unwrap (Resolved (JObj env)) = Inr (JObj env)"
  using assms by (simp add: unwrap_def)

lemma date_field_object:
  "\<exists>r. date_field k (JObj p) = Inr (JObj r) \<and> dated k p r"
proof (cases "map_of p k")
  case None
  then show ?thesis by auto
next
  case (Some v)
  show ?thesis
  proof (cases "truthy v")
    case True
    with Some have "date_field k (JObj p) = Inr (JObj (AList.update k (JDate v) p))"
      by simp
    moreover from Some True have "dated k p (AList.update k (JDate v) p)"
      by (simp add: update_conv')
    ultimately show ?thesis by blast
  next
    case False
    with Some show ?thesis by auto
  qed
qed

lemma map_items_objects:
  "\<exists>rs. map_items (date_field k) (map JObj ps) = Inr (map JObj rs) \<and> list_all2 (dated k) ps rs"
proof (induction ps)
  case Nil
  then show ?case by simp
next
  case (Cons p ps)
  then obtain rs where rs: "map_items (date_field k) (map JObj ps) = Inr (map JObj rs)"
    "list_all2 (dated k) ps rs" by blast
  obtain r where r: "date_field k (JObj p) = Inr (JObj r)" "dated k p r"
    using date_field_object by blast
  have "map_items (date_field k) (map JObj (p # ps)) = Inr (map JObj (r # rs))"
    using rs(1) r(1) by simp
  moreover have "list_all2 (dated k) (p # ps) (r # rs)"
    using rs(2) r(2) by simp
  ultimately show ?case by blast
qed

lemma map_dates_objects:
  "\<exists>rs. map_dates k (JArr (map JObj ps)) = Inr (JArr (map JObj rs)) \<and> list_all2 (dated k) ps rs"
proof -
  obtain rs where "map_items (date_field k) (map JObj ps) = Inr (map JObj rs)"
    "list_all2 (dated k) ps rs"
    using map_items_objects by blast
  then have "map_dates k (JArr (map JObj ps)) = Inr (JArr (map JObj rs)) \<and> list_all2 (dated k) ps rs"
    by simp
  then show ?thesis by blast
qed

lemma getPackages_ok:
  assumes "map_of env ''status'' = Some (JStr ''ok'')"
    and "map_of env ''packages'' = Some (JArr (map JObj ps))"
  shows "\<exists>rs. fst (getPackages this (reply (Resolved (JObj env))) net) = Inr (JArr (map JObj rs)) \<and>
           list_all2 (dated ''created'') ps rs"
proof -
  obtain rs where rs: "map_dates ''created'' (JArr (map JObj ps)) = Inr (JArr (map JObj rs))"
    "list_all2 (dated ''created'') ps rs"
    using map_dates_objects by blast
  have "fst (getPackages this (reply (Resolved (JObj env))) net) = Inr (JArr (map JObj rs))"
    using assms(2) rs(1)
    by (simp add: getPackages_def apiCall_get reply_def unwrap_ok [OF assms(1)])
  with rs(2) show ?thesis by blast
qed

lemma getBalance_ok:
  assumes "map_of env ''status'' = Some (JStr ''ok'')"
    and "map_of env ''operations'' = Some (JArr (map JObj ops))"
  shows "\<exists>rs. fst (getBalance this (reply (Resolved (JObj env))) net) =
             Inr (JObj (AList.delete ''status'' (AList.update ''operations'' (JArr (map JObj rs)) env))) \<and>
           list_all2 (dated ''date'') ops rs"
proof -
  obtain rs where rs: "map_dates ''date'' (JArr (map JObj ops)) = Inr (JArr (map JObj rs))"
    "list_all2 (dated ''date'') ops rs"
    using map_dates_objects by blast
  have "fst (getBalance this (reply (Resolved (JObj env))) net) =
      Inr (JObj (AList.delete ''status'' (AList.update ''operations'' (JArr (map JObj rs)) env)))"
    using assms(2) rs(1)
    by (simp add: getBalance_def apiCall_get reply_def unwrap_ok [OF assms(1)])
  with rs(2) show ?thesis by blast
qed

lemma getResult_ok:
  assumes "map_of env ''status'' = Some (JStr ''ok'')"
  shows "\<exists>r. fst (getResult this (reply (Resolved (JObj env))) i net) =
             Inr (JObj (AList.delete ''status'' r)) \<and> dated ''finished'' env r"
proof -
  obtain r where r: "date_field ''finished'' (JObj env) = Inr (JObj r)" "dated ''finished'' env r"
    using date_field_object by blast
  have "fst (getResult this (reply (Resolved (JObj env))) i net) = Inr (JObj (AList.delete ''status'' r))"
    using r(1)
    by (simp add: getResult_def apiCall_get reply_def unwrap_ok [OF assms(1)])
  with r(2) show ?thesis by blast
qed

lemma getPackage_ok:
  assumes "map_of env ''status'' = Some (JStr ''ok'')"
    and "map_of env ''package'' = Some (JObj p)"
  shows "\<exists>r. fst (getPackage this (reply (Resolved (JObj env))) i net) = Inr (JObj r) \<and>
           (\<forall>f. map_of r f =
              (if f \<in> {''created'', ''started'', ''stopped'', ''finished'', ''updated'', ''delivered''}
               then map_option (\<lambda>v. if truthy v then JDate v else v) (map_of p f)
               else map_of p f))"
proof -
  obtain p1 where p1: "date_field ''created'' (JObj p) = Inr (JObj p1)" "dated ''created'' p p1"
    using date_field_object by blast
  obtain p2 where p2: "date_field ''started'' (JObj p1) = Inr (JObj p2)" "dated ''started'' p1 p2"
    using date_field_object by blast
  obtain p3 where p3: "date_field ''stopped'' (JObj p2) = Inr (JObj p3)" "dated ''stopped'' p2 p3"
    using date_field_object by blast
  obtain p4 where p4: "date_field ''finished'' (JObj p3) = Inr (JObj p4)" "dated ''finished'' p3 p4"
    using date_field_object by blast
  obtain p5 where p5: "date_field ''updated'' (JObj p4) = Inr (JObj p5)" "dated ''updated'' p4 p5"
    using date_field_object by blast
  obtain p6 where p6: "date_field ''delivered'' (JObj p5) = Inr (JObj p6)" "dated ''delivered'' p5 p6"
    using date_field_object by blast
  have "fst (getPackage this (reply (Resolved (JObj env))) i net) = Inr (JObj p6)"
    using assms(2) p1(1) p2(1) p3(1) p4(1) p5(1) p6(1)
    by (simp add: getPackage_def apiCall_get reply_def unwrap_ok [OF assms(1)])
  moreover have "\<forall>f. map_of p6 f =
              (if f \<in> {''created'', ''started'', ''stopped'', ''finished'', ''updated'', ''delivered''}
               then map_option (\<lambda>v. if truthy v then JDate v else v) (map_of p f)
               else map_of p f)"
    by (simp add: p1(2) p2(2) p3(2) p4(2) p5(2) p6(2))
  ultimately show ?thesis by blast
qed

subsection \<open>Creating a package\<close>

text \<open>
  C6, as stated, fails: in the call of the README, which leaves \<^verbatim>\<open>labels_required\<close> out,
  the data of the request holds the property \<^verbatim>\<open>labels_required\<close>, with the value
  \<^verbatim>\<open>null\<close> of the default parameter. The flag is not absent from the request.
\<close>

theorem createPackage_default_flag_counterexample:
  "snd (createPackage test_client (reply (Resolved (JObj [(''status'', JStr ''ok'')])))
          (JStr ''Test package'') (JStr ''Keypoints'')
          (JStr ''Put one point only in the center of the image'') JNull JNull
          (JStr ''https://p.tagias.com/samples/'')
          (JArr [JStr ''dog.8001.jpg'', JStr ''dog.8002.jpg'', JStr ''dog.8003.jpg''])
          JUndefined []) =
     [\<lparr> verb = POST, url = ''https://p.tagias.com/api/v2/tagias/packages'',
        headers = [(''Content-Type'', ''application/json''), (''Authorization'', ''Api-Key test'')],
        body = Some (JObj
          [(''name'', JStr ''Test package''),
           (''type'', JStr ''Keypoints''),
           (''descr'', JStr ''Put one point only in the center of the image''),
           (''labels'', JNull),
           (''callback'', JNull),
           (''baseurl'', JStr ''https://p.tagias.com/samples/''),
           (''pictures'', JArr [JStr ''dog.8001.jpg'', JStr ''dog.8002.jpg'', JStr ''dog.8003.jpg'']),
           (''labels_required'', JNull)]) \<rparr>] \<and>
   map_of [(''name'', JStr ''Test package''),
           (''type'', JStr ''Keypoints''),
           (''descr'', JStr ''Put one point only in the center of the image''),
           (''labels'', JNull),
           (''callback'', JNull),
           (''baseurl'', JStr ''https://p.tagias.com/samples/''),
           (''pictures'', JArr [JStr ''dog.8001.jpg'', JStr ''dog.8002.jpg'', JStr ''dog.8003.jpg'']),
           (''labels_required'', JNull)] ''labels_required'' \<noteq> None"
  by (simp add: createPackage_def Let_def apiCall_def instance_post_def issue_def test_client_def
      axios_create_def TAGIAS_URL_def split: sum.split)

text \<open>
  C6, amended: the data of the request is an object with exactly the properties
  \<^verbatim>\<open>name\<close>, \<^verbatim>\<open>type\<close>, \<^verbatim>\<open>descr\<close>, \<^verbatim>\<open>labels\<close>, \<^verbatim>\<open>callback\<close>, \<^verbatim>\<open>baseurl\<close>,
  \<^verbatim>\<open>pictures\<close> and \<^verbatim>\<open>labels_required\<close>, each holding the argument of that name,
  except that \<^verbatim>\<open>labels_required\<close> holds \<^verbatim>\<open>null\<close> when the caller leaves it out; and
  when the body of the answer has status \<^verbatim>\<open>ok\<close>, the operation returns an object with
  exactly \<^verbatim>\<open>id\<close> and \<^verbatim>\<open>pictures_num\<close>, read from the body, and nothing else of it.
\<close>

theorem createPackage_body_and_result:
  assumes "map_of env ''status'' = Some (JStr ''ok'')"
  shows "snd (createPackage this (reply (Resolved (JObj env))) a1 a2 a3 a4 a5 a6 a7 a8 net) =
       net @ [\<lparr> verb = POST, url = ''https://p.tagias.com/api/v2/tagias/packages'',
                headers = defaults_headers (axios_instance this),
                body = Some (JObj [(''name'', a1), (''type'', a2), (''descr'', a3), (''labels'', a4),
                  (''callback'', a5), (''baseurl'', a6), (''pictures'', a7),
                  (''labels_required'', if a8 = JUndefined then JNull else a8)]) \<rparr>] \<and>
     fst (createPackage this (reply (Resolved (JObj env))) a1 a2 a3 a4 a5 a6 a7 a8 net) =
       Inr (JObj [(''id'', case map_of env ''id'' of None \<Rightarrow> JUndefined | Some v \<Rightarrow> v),
                  (''pictures_num'',
                     case map_of env ''pictures_num'' of None \<Rightarrow> JUndefined | Some v \<Rightarrow> v)])"
  by (simp add: createPackage_def Let_def apiCall_post reply_def TAGIAS_URL_def
      unwrap_ok [OF assms])

theorem createPackage_body_and_result_witness:
  "map_of [(''status'', JStr ''ok''), (''id'', JStr ''p1''), (''pictures_num'', JNum 3),
           (''extra'', JBool True)] ''status'' = Some (JStr ''ok'') \<and>
   fst (createPackage test_client
          (reply (Resolved (JObj [(''status'', JStr ''ok''), (''id'', JStr ''p1''),
                                  (''pictures_num'', JNum 3), (''extra'', JBool True)])))
          (JStr ''Test package'') (JStr ''Keypoints'') (JStr ''one point'') JNull JNull
          (JStr ''https://p.tagias.com/samples/'')
          (JArr [JStr ''dog.8001.jpg'', JStr ''dog.8002.jpg'', JStr ''dog.8003.jpg''])
          JUndefined []) =
     Inr (JObj [(''id'', JStr ''p1''), (''pictures_num'', JNum 3)])"
  using createPackage_body_and_result
    [where env = "[(''status'', JStr ''ok''), (''id'', JStr ''p1''), (''pictures_num'', JNum 3),
                   (''extra'', JBool True)]"
       and this = test_client and net = "[]"
       and ?a1.0 = "JStr ''Test package''" and ?a2.0 = "JStr ''Keypoints''"
       and ?a3.0 = "JStr ''one point''" and ?a4.0 = JNull and ?a5.0 = JNull
       and ?a6.0 = "JStr ''https://p.tagias.com/samples/''"
       and ?a7.0 = "JArr [JStr ''dog.8001.jpg'', JStr ''dog.8002.jpg'', JStr ''dog.8003.jpg'']"
       and ?a8.0 = JUndefined]
  by simp

subsection \<open>Dates\<close>

text \<open>
  C4, as stated, fails. In the package that \<^verbatim>\<open>getPackage\<close> returns, \<^verbatim>\<open>started\<close> is
  present on the wire as the empty string and \<^verbatim>\<open>finished\<close> as \<^verbatim>\<open>null\<close>, and neither
  becomes a date: the guard is the truthiness of the value, not its presence. In the list
  that \<^verbatim>\<open>getPackages\<close> returns, the \<^verbatim>\<open>finished\<close> of a package is a string the wire
  holds, and it stays a string: only \<^verbatim>\<open>created\<close> is converted there.
\<close>

theorem dates_converted_counterexample:
  "fst (getPackage test_client
         (reply (Resolved (JObj
            [(''status'', JStr ''ok''),
             (''package'', JObj [(''id'', JStr ''p1''),
                                 (''created'', JStr ''2020-05-01T10:00:00.000Z''),
                                 (''started'', JStr ''''),
                                 (''finished'', JNull)])])))
         ''p1'' []) =
     Inr (JObj [(''id'', JStr ''p1''),
                (''created'', JDate (JStr ''2020-05-01T10:00:00.000Z'')),
                (''started'', JStr ''''),
                (''finished'', JNull)]) \<and>
   fst (getPackages test_client
         (reply (Resolved (JObj
            [(''status'', JStr ''ok''),
             (''packages'', JArr [JObj [(''id'', JStr ''p1''),
                                        (''created'', JStr ''2020-05-01T10:00:00.000Z''),
                                        (''finished'', JStr ''2020-06-01T10:00:00.000Z'')]])])))
         []) =
     Inr (JArr [JObj [(''id'', JStr ''p1''),
                      (''created'', JDate (JStr ''2020-05-01T10:00:00.000Z'')),
                      (''finished'', JStr ''2020-06-01T10:00:00.000Z'')]])"
  by (simp add: getPackage_def getPackages_def apiCall_def instance_get_def issue_def reply_def
      unwrap_def)

text \<open>
  C4, amended: for a body with status \<^verbatim>\<open>ok\<close>,
  \<^item> \<^verbatim>\<open>getPackage\<close> returns the package with each of \<^verbatim>\<open>created\<close>, \<^verbatim>\<open>started\<close>,
    \<^verbatim>\<open>stopped\<close>, \<^verbatim>\<open>finished\<close>, \<^verbatim>\<open>updated\<close>, \<^verbatim>\<open>delivered\<close> turned into a date when its
    wire value is truthy;
  \<^item> \<^verbatim>\<open>getPackages\<close> returns the packages with \<^verbatim>\<open>created\<close>, and only it, so treated;
  \<^item> \<^verbatim>\<open>getBalance\<close> returns the operations with \<^verbatim>\<open>date\<close> so treated;
  \<^item> \<^verbatim>\<open>getResult\<close> returns the body with \<^verbatim>\<open>finished\<close> so treated.

  A field that is absent stays absent, a field that is present with a falsy value (the
  empty string, \<^verbatim>\<open>null\<close>, 0, \<^verbatim>\<open>false\<close>) keeps that value, and every other field of the
  object is returned as received (but for the \<^verbatim>\<open>status\<close> of the body in \<^verbatim>\<open>getResult\<close>).
\<close>

theorem dates_converted:
  assumes "map_of env ''status'' = Some (JStr ''ok'')"
  shows
    "(map_of env ''package'' = Some (JObj p) \<longrightarrow>
        (\<exists>r. fst (getPackage this (reply (Resolved (JObj env))) i net) = Inr (JObj r) \<and>
           (\<forall>f. map_of r f =
              (if f \<in> {''created'', ''started'', ''stopped'', ''finished'', ''updated'', ''delivered''}
               then map_option (\<lambda>v. if truthy v then JDate v else v) (map_of p f)
               else map_of p f)))) \<and>
     (map_of env ''packages'' = Some (JArr (map JObj ps)) \<longrightarrow>
        (\<exists>rs. fst (getPackages this (reply (Resolved (JObj env))) net) = Inr (JArr (map JObj rs)) \<and>
           list_all2 (dated ''created'') ps rs)) \<and>
     (map_of env ''operations'' = Some (JArr (map JObj ops)) \<longrightarrow>
        (\<exists>r rs. fst (getBalance this (reply (Resolved (JObj env))) net) = Inr (JObj r) \<and>
           map_of r ''operations'' = Some (JArr (map JObj rs)) \<and>
           list_all2 (dated ''date'') ops rs)) \<and>
     (\<exists>r. fst (getResult this (reply (Resolved (JObj env))) i net) = Inr (JObj r) \<and>
        (\<forall>f. f \<noteq> ''status'' \<longrightarrow>
           map_of r f =
             (if f = ''finished''
              then map_option (\<lambda>v. if truthy v then JDate v else v) (map_of env f)
              else map_of env f)))"
proof (intro conjI impI)
  assume "map_of env ''package'' = Some (JObj p)"
  then show "\<exists>r. fst (getPackage this (reply (Resolved (JObj env))) i net) = Inr (JObj r) \<and>
           (\<forall>f. map_of r f =
              (if f \<in> {''created'', ''started'', ''stopped'', ''finished'', ''updated'', ''delivered''}
               then map_option (\<lambda>v. if truthy v then JDate v else v) (map_of p f)
               else map_of p f))"
    by (rule getPackage_ok [OF assms])
next
  assume "map_of env ''packages'' = Some (JArr (map JObj ps))"
  then show "\<exists>rs. fst (getPackages this (reply (Resolved (JObj env))) net) = Inr (JArr (map JObj rs)) \<and>
           list_all2 (dated ''created'') ps rs"
    by (rule getPackages_ok [OF assms])
next
  assume "map_of env ''operations'' = Some (JArr (map JObj ops))"
  from getBalance_ok [OF assms this]
  obtain rs where rs: "fst (getBalance this (reply (Resolved (JObj env))) net) =
      Inr (JObj (AList.delete ''status'' (AList.update ''operations'' (JArr (map JObj rs)) env)))"
    "list_all2 (dated ''date'') ops rs"
    by blast
  have "map_of (AList.delete ''status'' (AList.update ''operations'' (JArr (map JObj rs)) env))
      ''operations'' = Some (JArr (map JObj rs))"
    by (simp add: delete_conv' update_conv')
  with rs show "\<exists>r rs. fst (getBalance this (reply (Resolved (JObj env))) net) = Inr (JObj r) \<and>
           map_of r ''operations'' = Some (JArr (map JObj rs)) \<and>
           list_all2 (dated ''date'') ops rs"
    by blast
next
  from getResult_ok [OF assms]
  obtain r where r: "fst (getResult this (reply (Resolved (JObj env))) i net) =
      Inr (JObj (AList.delete ''status'' r))" "dated ''finished'' env r"
    by blast
  have "\<forall>f. f \<noteq> ''status'' \<longrightarrow>
      map_of (AList.delete ''status'' r) f =
        (if f = ''finished''
         then map_option (\<lambda>v. if truthy v then JDate v else v) (map_of env f)
         else map_of env f)"
    using r(2) by (simp add: delete_conv')
  with r(1) show "\<exists>r. fst (getResult this (reply (Resolved (JObj env))) i net) = Inr (JObj r) \<and>
        (\<forall>f. f \<noteq> ''status'' \<longrightarrow>
           map_of r f =
             (if f = ''finished''
              then map_option (\<lambda>v. if truthy v then JDate v else v) (map_of env f)
              else map_of env f))"
    by blast
qed

theorem dates_converted_witness:
  "map_of [(''status'', JStr ''ok''), (''balance'', JNum 12),
           (''operations'', JArr (map JObj
              [[(''date'', JStr ''2020-05-02T08:30:00.000Z''), (''amount'', JNum 20),
                (''note'', JStr ''Top-up'')],
               [(''amount'', JNum (- 8)), (''note'', JStr ''Test package'')]]))] ''status''
     = Some (JStr ''ok'') \<and>
   (\<exists>r rs. fst (getBalance test_client
              (reply (Resolved (JObj
                 [(''status'', JStr ''ok''), (''balance'', JNum 12),
                  (''operations'', JArr (map JObj
                     [[(''date'', JStr ''2020-05-02T08:30:00.000Z''), (''amount'', JNum 20),
                       (''note'', JStr ''Top-up'')],
                      [(''amount'', JNum (- 8)), (''note'', JStr ''Test package'')]]))])))
              []) = Inr (JObj r) \<and>
      map_of r ''operations'' = Some (JArr (map JObj rs)) \<and>
      list_all2 (dated ''date'')
        [[(''date'', JStr ''2020-05-02T08:30:00.000Z''), (''amount'', JNum 20),
          (''note'', JStr ''Top-up'')],
         [(''amount'', JNum (- 8)), (''note'', JStr ''Test package'')]] rs) \<and>
   fst (getBalance test_client
          (reply (Resolved (JObj
             [(''status'', JStr ''ok''), (''balance'', JNum 12),
              (''operations'', JArr (map JObj
                 [[(''date'', JStr ''2020-05-02T08:30:00.000Z''), (''amount'', JNum 20),
                   (''note'', JStr ''Top-up'')],
                  [(''amount'', JNum (- 8)), (''note'', JStr ''Test package'')]]))])))
          []) =
     Inr (JObj [(''balance'', JNum 12),
                (''operations'', JArr
                   [JObj [(''date'', JDate (JStr ''2020-05-02T08:30:00.000Z'')), (''amount'', JNum 20),
                          (''note'', JStr ''Top-up'')],
                    JObj [(''amount'', JNum (- 8)), (''note'', JStr ''Test package'')]])])"
proof -
  let ?ops = "[[(''date'', JStr ''2020-05-02T08:30:00.000Z''), (''amount'', JNum 20),
                (''note'', JStr ''Top-up'')],
               [(''amount'', JNum (- 8)), (''note'', JStr ''Test package'')]]"
  let ?env = "[(''status'', JStr ''ok''), (''balance'', JNum 12),
               (''operations'', JArr (map JObj ?ops))]"
  have ok: "map_of ?env ''status'' = Some (JStr ''ok'')" by simp
  have ops: "map_of ?env ''operations'' = Some (JArr (map JObj ?ops))" by simp
  have ex: "\<exists>r rs. fst (getBalance test_client (reply (Resolved (JObj ?env))) []) = Inr (JObj r) \<and>
      map_of r ''operations'' = Some (JArr (map JObj rs)) \<and> list_all2 (dated ''date'') ?ops rs"
    using dates_converted [OF ok, where ops = ?ops and this = test_client and net = "[]"] ops
    by blast
  have val: "fst (getBalance test_client (reply (Resolved (JObj ?env))) []) =
     Inr (JObj [(''balance'', JNum 12),
                (''operations'', JArr
                   [JObj [(''date'', JDate (JStr ''2020-05-02T08:30:00.000Z'')), (''amount'', JNum 20),
                          (''note'', JStr ''Top-up'')],
                    JObj [(''amount'', JNum (- 8)), (''note'', JStr ''Test package'')]])])"
    by (simp add: getBalance_def apiCall_def instance_get_def issue_def reply_def unwrap_def)
  from ok ex val show ?thesis by blast
qed

subsection \<open>The status of the envelope\<close>

text \<open>
  C5, as stated, fails: every package of the list that \<^verbatim>\<open>getPackages\<close> returns still
  has its \<^verbatim>\<open>status\<close> (the status of the package, which the callers read). Nothing is
  stripped from the items.
\<close>

theorem item_status_counterexample:
  "fst (getPackages test_client
         (reply (Resolved (JObj
            [(''status'', JStr ''ok''),
             (''packages'', JArr [JObj [(''id'', JStr ''p1''),
                                        (''name'', JStr ''Test package''),
                                        (''status'', JStr ''FINISHED'')]])])))
         []) =
     Inr (JArr [JObj [(''id'', JStr ''p1''),
                      (''name'', JStr ''Test package''),
                      (''status'', JStr ''FINISHED'')]])"
  by (simp add: getPackages_def apiCall_def instance_get_def issue_def reply_def unwrap_def)

text \<open>
  C5, amended: for a body with status \<^verbatim>\<open>ok\<close>, \<^verbatim>\<open>getBalance\<close> and \<^verbatim>\<open>getResult\<close> return
  the body without its top-level \<^verbatim>\<open>status\<close> (the success marker of the envelope), and
  \<^verbatim>\<open>getPackages\<close> returns the array of the packages alone, so the marker is not part of
  what it returns; the \<^verbatim>\<open>status\<close> of each package of that array is returned as
  received.
\<close>

theorem envelope_status_removed:
  assumes "map_of env ''status'' = Some (JStr ''ok'')"
  shows
    "(map_of env ''operations'' = Some (JArr (map JObj ops)) \<longrightarrow>
        (\<exists>r. fst (getBalance this (reply (Resolved (JObj env))) net) = Inr (JObj r) \<and>
           map_of r ''status'' = None \<and>
           (\<forall>f. f \<noteq> ''status'' \<and> f \<noteq> ''operations'' \<longrightarrow> map_of r f = map_of env f))) \<and>
     (\<exists>r. fst (getResult this (reply (Resolved (JObj env))) i net) = Inr (JObj r) \<and>
        map_of r ''status'' = None \<and>
        (\<forall>f. f \<noteq> ''status'' \<and> f \<noteq> ''finished'' \<longrightarrow> map_of r f = map_of env f)) \<and>
     (map_of env ''packages'' = Some (JArr (map JObj ps)) \<longrightarrow>
        (\<exists>rs. fst (getPackages this (reply (Resolved (JObj env))) net) = Inr (JArr (map JObj rs)) \<and>
           list_all2 (\<lambda>p r. map_of r ''status'' = map_of p ''status'') ps rs))"
proof (intro conjI impI)
  assume "map_of env ''operations'' = Some (JArr (map JObj ops))"
  from getBalance_ok [OF assms this]
  obtain rs where rs: "fst (getBalance this (reply (Resolved (JObj env))) net) =
      Inr (JObj (AList.delete ''status'' (AList.update ''operations'' (JArr (map JObj rs)) env)))"
    by blast
  let ?r = "AList.delete ''status'' (AList.update ''operations'' (JArr (map JObj rs)) env)"
  have "map_of ?r ''status'' = None"
    by (simp add: delete_conv')
  moreover have "\<forall>f. f \<noteq> ''status'' \<and> f \<noteq> ''operations'' \<longrightarrow> map_of ?r f = map_of env f"
    by (simp add: delete_conv' update_conv')
  ultimately show "\<exists>r. fst (getBalance this (reply (Resolved (JObj env))) net) = Inr (JObj r) \<and>
           map_of r ''status'' = None \<and>
           (\<forall>f. f \<noteq> ''status'' \<and> f \<noteq> ''operations'' \<longrightarrow> map_of r f = map_of env f)"
    using rs by blast
next
  from getResult_ok [OF assms]
  obtain r where r: "fst (getResult this (reply (Resolved (JObj env))) i net) =
      Inr (JObj (AList.delete ''status'' r))" "dated ''finished'' env r"
    by blast
  have "map_of (AList.delete ''status'' r) ''status'' = None"
    by (simp add: delete_conv')
  moreover have "\<forall>f. f \<noteq> ''status'' \<and> f \<noteq> ''finished'' \<longrightarrow>
      map_of (AList.delete ''status'' r) f = map_of env f"
    using r(2) by (simp add: delete_conv')
  ultimately show "\<exists>r. fst (getResult this (reply (Resolved (JObj env))) i net) = Inr (JObj r) \<and>
        map_of r ''status'' = None \<and>
        (\<forall>f. f \<noteq> ''status'' \<and> f \<noteq> ''finished'' \<longrightarrow> map_of r f = map_of env f)"
    using r(1) by blast
next
  assume "map_of env ''packages'' = Some (JArr (map JObj ps))"
  from getPackages_ok [OF assms this]
  obtain rs where rs: "fst (getPackages this (reply (Resolved (JObj env))) net) =
      Inr (JArr (map JObj rs))" "list_all2 (dated ''created'') ps rs"
    by blast
  from rs(2) have "list_all2 (\<lambda>p r. map_of r ''status'' = map_of p ''status'') ps rs"
    by (rule list_all2_mono) simp
  with rs(1) show "\<exists>rs. fst (getPackages this (reply (Resolved (JObj env))) net) =
      Inr (JArr (map JObj rs)) \<and>
      list_all2 (\<lambda>p r. map_of r ''status'' = map_of p ''status'') ps rs"
    by blast
qed

theorem envelope_status_removed_witness:
  "map_of [(''status'', JStr ''ok''), (''id'', JStr ''p1''),
           (''finished'', JStr ''2020-06-01T10:00:00.000Z''),
           (''baseurl'', JStr ''https://p.tagias.com/samples/''),
           (''pictures'', JArr [])] ''status'' = Some (JStr ''ok'') \<and>
   (\<exists>r. fst (getResult test_client
           (reply (Resolved (JObj
              [(''status'', JStr ''ok''), (''id'', JStr ''p1''),
               (''finished'', JStr ''2020-06-01T10:00:00.000Z''),
               (''baseurl'', JStr ''https://p.tagias.com/samples/''),
               (''pictures'', JArr [])])))
           ''p1'' []) = Inr (JObj r) \<and>
      map_of r ''status'' = None) \<and>
   fst (getResult test_client
         (reply (Resolved (JObj
            [(''status'', JStr ''ok''), (''id'', JStr ''p1''),
             (''finished'', JStr ''2020-06-01T10:00:00.000Z''),
             (''baseurl'', JStr ''https://p.tagias.com/samples/''),
             (''pictures'', JArr [])])))
         ''p1'' []) =
     Inr (JObj [(''id'', JStr ''p1''),
                (''finished'', JDate (JStr ''2020-06-01T10:00:00.000Z'')),
                (''baseurl'', JStr ''https://p.tagias.com/samples/''),
                (''pictures'', JArr [])])"
proof -
  let ?env = "[(''status'', JStr ''ok''), (''id'', JStr ''p1''),
               (''finished'', JStr ''2020-06-01T10:00:00.000Z''),
               (''baseurl'', JStr ''https://p.tagias.com/samples/''),
               (''pictures'', JArr [])]"
  have ok: "map_of ?env ''status'' = Some (JStr ''ok'')" by simp
  have ex: "\<exists>r. fst (getResult test_client (reply (Resolved (JObj ?env))) ''p1'' []) = Inr (JObj r) \<and>
      map_of r ''status'' = None"
    using envelope_status_removed [OF ok, where this = test_client and net = "[]" and i = "''p1''"]
    by blast
  have val: "fst (getResult test_client (reply (Resolved (JObj ?env))) ''p1'' []) =
     Inr (JObj [(''id'', JStr ''p1''),
                (''finished'', JDate (JStr ''2020-06-01T10:00:00.000Z'')),
                (''baseurl'', JStr ''https://p.tagias.com/samples/''),
                (''pictures'', JArr [])])"
    by (simp add: getResult_def apiCall_def instance_get_def issue_def reply_def unwrap_def)
  from ok ex val show ?thesis by blast
qed

end
